theory Spec2Isabelle
  imports Main "HOL-Library.Word" "HOL-Library.AList"
begin

section \<open>Data model of registry/consul/consul.go\<close>

text \<open>
  The file under verification is \<^verbatim>\<open>registry/consul/consul.go\<close>. It imports three
  packages whose declarations are not part of it: \<^verbatim>\<open>registry\<close> (Config, Service,
  ServiceInstance, ServiceUpdate and the update types), the Consul API client and glog.
  The records below carry exactly the fields that consul.go reads or writes.
\<close>

type_synonym uint64 = "64 word"

text \<open>\<^verbatim>\<open>registry.Config\<close>: the two fields NewRegistry reads.\<close>

record Config =
  Addresses :: "string list"
  TagsToWatch :: "string list"

text \<open>\<^verbatim>\<open>registry.ServiceInstance\<close>, as built at lines 224-229.\<close>

record ServiceInstance =
  Host :: string
  Address :: string
  Tags :: "string list"
  Port :: string

text \<open>\<^verbatim>\<open>registry.NEW\<close>, \<^verbatim>\<open>registry.CHANGED\<close>, \<^verbatim>\<open>registry.DELETED\<close>.\<close>

datatype UpdateType = NEW | CHANGED | DELETED

text \<open>\<^verbatim>\<open>registry.ServiceUpdate\<close>, as built at lines 87-91, 99-103 and 242-247. A Go map
  that was never assigned (the NEW and DELETED updates) is the empty map here.\<close>

record ServiceUpdate =
  ServiceName :: string
  UpdateType :: UpdateType
  ServiceInstances :: "string \<rightharpoonup> ServiceInstance"
  Tag :: string

text \<open>\<^verbatim>\<open>consul.CatalogService\<close>: the fields of a node that lines 224-229 read. The
  node's own address is the field \<^verbatim>\<open>Address\<close> of the Go struct; it is called
  \<open>NodeAddress\<close> here because \<open>Address\<close> already names the field of ServiceInstance.\<close>

record CatalogService =
  Node :: string
  NodeAddress :: string
  ServiceAddress :: string
  ServicePort :: int
  ServiceTags :: "string list"

section \<open>NewRegistry (lines 45-66)\<close>

text \<open>
  The error value returned by NewRegistry is either the package's own \<^verbatim>\<open>ErrNoAddress\<close>
  (line 23) or whatever \<^verbatim>\<open>consul.NewClient\<close> returned (line 57). The Consul client
  package cannot return the variable \<^verbatim>\<open>ErrNoAddress\<close> of this package, so the two are
  different constructors.
\<close>

datatype 'e error = ErrNoAddress | ClientError 'e

text \<open>The part of \<^verbatim>\<open>consulRegistry\<close> (lines 27-32) that NewRegistry fills in. The cache
  maps a service name to the address of its \<^verbatim>\<open>consulService\<close>; the Go map is kept
  as the list of its entries (one per name), so that a range over it can enumerate its
  keys: \<open>map_of\<close> looks a name up, \<open>AList.delete\<close> removes it.\<close>

record 'c consulRegistry =
  client :: 'c
  watchedServices :: "(string \<times> nat) list"
  tagsToWatch :: "string list"

text \<open>
  \<^verbatim>\<open>consul.DefaultConfig\<close> and \<^verbatim>\<open>consul.NewClient\<close> belong to the Consul API package.
  The parameter \<open>NewClient\<close> stands for "the default configuration with its Address
  field overwritten by the given string, passed to consul.NewClient": it returns either
  an error or a client.
\<close>

definition NewRegistry ::
  "(string \<Rightarrow> 'e + 'c) \<Rightarrow> Config \<Rightarrow> 'e error + 'c consulRegistry" where
  "NewRegistry NewClient config =
     (if length (Addresses config) < 1 then Inl ErrNoAddress
      else (case NewClient (Addresses config ! 0) of
              Inl err \<Rightarrow> Inl (ClientError err)
            | Inr cl \<Rightarrow>
                Inr \<lparr>client = cl, watchedServices = [],
                     tagsToWatch = TagsToWatch config\<rparr>))"

section \<open>Tag matching in watchServices (lines 155-169)\<close>

text \<open>
  The inner loop (lines 162-168) runs over \<^verbatim>\<open>cr.tagsToWatch\<close> for one tag of the
  service; the pair is the current value of the locals \<^verbatim>\<open>(ignore, properTag)\<close>.
  Neither loop has a \<^verbatim>\<open>break\<close>.
\<close>

fun scanTagsToWatch :: "string \<Rightarrow> string list \<Rightarrow> bool \<times> string \<Rightarrow> bool \<times> string" where
  "scanTagsToWatch t [] acc = acc"
| "scanTagsToWatch t (tagToWatch # rest) acc =
     scanTagsToWatch t rest (if t = tagToWatch then (False, t) else acc)"

text \<open>The outer loop (lines 160-169) over the tags \<^verbatim>\<open>v\<close> of the service.\<close>

fun scanTags :: "string list \<Rightarrow> string list \<Rightarrow> bool \<times> string \<Rightarrow> bool \<times> string" where
  "scanTags [] tw acc = acc"
| "scanTags (t # rest) tw acc = scanTags rest tw (scanTagsToWatch t tw acc)"

text \<open>Lines 155-157 initialise \<^verbatim>\<open>ignore := true\<close> and \<^verbatim>\<open>properTag\<close> to the empty string.\<close>

definition matchTags :: "string list \<Rightarrow> string list \<Rightarrow> bool \<times> string" where
  "matchTags v tw = scanTags v tw (True, [])"



section \<open>The instance map of watchService (lines 221-230)\<close>

text \<open>Decimal digits of a natural number, most significant first.\<close>

function decimal :: "nat \<Rightarrow> string" where
  "decimal n =
     (if n < 10 then [''0123456789'' ! n]
      else decimal (n div 10) @ [''0123456789'' ! (n mod 10)])"
  by pat_completeness auto
termination
  by (relation "measure id") auto

declare decimal.simps [simp del]

text \<open>\<^verbatim>\<open>strconv.Itoa\<close>, and the verb \<^verbatim>\<open>%d\<close> of \<^verbatim>\<open>fmt.Sprintf\<close> on an int: the decimal
  rendering, with a minus sign for a negative value. A Go \<^verbatim>\<open>int\<close> has 64 bits; both
  functions only read it, so the model on \<open>int\<close> agrees with them on every value an
  \<^verbatim>\<open>int\<close> can hold.\<close>

definition Itoa :: "int \<Rightarrow> string" where
  "Itoa i = (if i < 0 then CHR ''-'' # decimal (nat (- i)) else decimal (nat i))"

text \<open>The key of line 224: \<^verbatim>\<open>fmt.Sprintf("%s:%d", node.ServiceAddress, node.ServicePort)\<close>.\<close>

definition instanceKey :: "CatalogService \<Rightarrow> string" where
  "instanceKey node = ServiceAddress node @ '':'' @ Itoa (ServicePort node)"

text \<open>The struct literal of lines 224-229.\<close>

definition newInstance :: "CatalogService \<Rightarrow> ServiceInstance" where
  "newInstance node =
     \<lparr>Host = Node node, Address = NodeAddress node, Tags = ServiceTags node,
      Port = Itoa (ServicePort node)\<rparr>"

text \<open>The loop of lines 223-230, storing into the map one node after the other.\<close>

fun storeInstances ::
  "CatalogService list \<Rightarrow> (string \<rightharpoonup> ServiceInstance) \<Rightarrow> (string \<rightharpoonup> ServiceInstance)" where
  "storeInstances [] m = m"
| "storeInstances (node # nodes) m =
     storeInstances nodes (m(instanceKey node \<mapsto> newInstance node))"

text \<open>Line 221 makes a fresh empty map; lines 223-230 fill it.\<close>

definition buildInstances :: "CatalogService list \<Rightarrow> (string \<rightharpoonup> ServiceInstance)" where
  "buildInstances nodes = storeInstances nodes Map.empty"

section \<open>The three goroutines of Run\<close>

text \<open>
  \<^verbatim>\<open>Run\<close> (lines 68-107) starts \<^verbatim>\<open>watchServices\<close> (lines 122-200) as a goroutine and
  then, for every service it dispatches, one \<^verbatim>\<open>watchService\<close> goroutine (lines
  204-250). The goroutines share the registry (its mutex and its cache), the
  \<^verbatim>\<open>consulService\<close> structs they hold pointers to, and three channels. The model is an
  interleaving semantics: a state of the whole program, and a function \<open>step\<close> that
  lets one goroutine execute up to its next access to shared state. A step that the
  source cannot take in a state (a \<^verbatim>\<open>Lock\<close> on a held mutex, a send on a full channel, a
  receive from an empty one) is \<open>None\<close>: the goroutine stays blocked until another
  step changes the state.
\<close>

subsection \<open>State\<close>

text \<open>The address of a \<^verbatim>\<open>consulService\<close> struct; \<^verbatim>\<open>new(consulService)\<close> at line 178
  returns the next unused one.\<close>

type_synonym rid = nat

text \<open>\<^verbatim>\<open>consulService\<close> (lines 35-42) with the two fields of the embedded
  \<^verbatim>\<open>registry.Service\<close> that the file uses. The channel \<^verbatim>\<open>done\<close> carries no values: it
  is only ever closed (lines 84 and 116) and polled (line 234), so its state is whether
  it has been closed.\<close>

record consulService =
  Name :: string
  Instances :: "string \<rightharpoonup> ServiceInstance"
  lastIndex :: uint64
  removed :: bool
  running :: bool
  done_closed :: bool
  tag :: string

text \<open>The zero value of the struct, as \<^verbatim>\<open>new\<close> returns it.\<close>

definition zeroService :: consulService where
  "zeroService =
     \<lparr>Name = [], Instances = Map.empty, lastIndex = 0, removed = False,
      running = False, done_closed = False, tag = []\<rparr>"

text \<open>The goroutines: Run, watchServices, and the watchService goroutines numbered in
  the order in which line 97 started them.\<close>

datatype tid = TRun | TWatchServices | TWatchService nat

text \<open>Where the Run goroutine stands. The deferred calls of lines 69 and 71 run in
  reverse order when Run returns or panics: first \<^verbatim>\<open>cr.stop()\<close> (lines 109-118), then
  \<^verbatim>\<open>close(upstream)\<close>.\<close>

datatype run_pc =
    RunStart                \<comment> \<open>lines 74-75: make the update channel, go watchServices\<close>
  | RunSelect               \<comment> \<open>line 78: select on done and update\<close>
  | RunRemoved rid          \<comment> \<open>line 83: if srv.removed\<close>
  | RunCloseDone rid        \<comment> \<open>line 84: close(srv.done)\<close>
  | RunSendDeleted rid      \<comment> \<open>lines 87-91: upstream <- DELETED\<close>
  | RunRunning rid          \<comment> \<open>line 96: if !srv.running\<close>
  | RunGo rid               \<comment> \<open>line 97: go cr.watchService(srv, upstream)\<close>
  | RunSetRunning rid       \<comment> \<open>line 98: srv.running = true\<close>
  | RunSendNew rid          \<comment> \<open>lines 99-103: upstream <- NEW\<close>
  | StopLock                \<comment> \<open>line 112: cr.Lock() in stop\<close>
  | StopRange               \<comment> \<open>line 115: the range over cr.watchedServices begins\<close>
  | StopClose "rid list"    \<comment> \<open>line 116: close(srv.done) for the records still to visit\<close>
  | StopUnlock              \<comment> \<open>line 113: the deferred cr.Unlock()\<close>
  | RunCloseUpstream        \<comment> \<open>line 69: the deferred close(upstream)\<close>
  | RunExit                 \<comment> \<open>Run has returned\<close>

text \<open>Where watchServices stands. Its locals \<^verbatim>\<open>lastIndex\<close> and \<^verbatim>\<open>services\<close> are fields
  of the state below; the lists are the entries a range loop has still to visit.\<close>

datatype cat_pc =
    CatQuery                                  \<comment> \<open>lines 126-131: catalog.Services\<close>
  | CatLock                                   \<comment> \<open>line 144: cr.Lock()\<close>
  | CatDone                                   \<comment> \<open>lines 145-151: poll of done\<close>
  | CatAdd "(string \<times> string list) list"      \<comment> \<open>lines 153-188: range over services\<close>
  | CatSendNew rid "(string \<times> string list) list"  \<comment> \<open>line 185: update <- service\<close>
  | CatDel "string list"                      \<comment> \<open>lines 190-197: range over the cache\<close>
  | CatSendRemoved string rid "string list"   \<comment> \<open>line 194: update <- srv\<close>
  | CatDelete string "string list"            \<comment> \<open>line 195: delete(cr.watchedServices, name)\<close>
  | CatExit                                   \<comment> \<open>line 148: return\<close>

text \<open>Where a watchService goroutine stands.\<close>

datatype watch_pc =
    WQuery       \<comment> \<open>lines 207-210: catalog.Service\<close>
  | WLock        \<comment> \<open>line 232: cr.Lock()\<close>
  | WDone        \<comment> \<open>lines 233-239: poll of service.done\<close>
  | WSend        \<comment> \<open>lines 242-247: upstream <- CHANGED\<close>
  | WUnlock      \<comment> \<open>line 248: cr.Unlock()\<close>
  | WExit        \<comment> \<open>line 236: return\<close>

text \<open>What a goroutine did besides touching shared state: a \<^verbatim>\<open>glog.Errorf\<close> line and a
  \<^verbatim>\<open>time.Sleep\<close> with its duration in nanoseconds (\<^verbatim>\<open>time.Duration\<close>).\<close>

datatype effect = Log string | Sleep int

definition Second :: int where
  "Second = 1000000000"

definition consulWatchTimeout :: int where
  "consulWatchTimeout = 30 * Second"

definition consulRetryInterval :: int where
  "consulRetryInterval = 15 * Second"

text \<open>\<^verbatim>\<open>consul.QueryOptions\<close>, the two fields lines 127-131 and 207-210 set.\<close>

record QueryOptions =
  WaitIndex :: uint64
  WaitTime :: int

text \<open>
  The state of the program. \<open>watched\<close> and \<open>watchTags\<close> are the fields
  \<^verbatim>\<open>watchedServices\<close> and \<^verbatim>\<open>tagsToWatch\<close> of the registry, \<open>lock\<close> its mutex (the
  goroutine that holds it; only \<^verbatim>\<open>Lock\<close> and \<^verbatim>\<open>Unlock\<close> are ever called). \<open>update\<close>
  is the content of the channel of line 74 (capacity 16). \<open>upstream\<close> lists the
  updates whose send on the caller's channel has completed, oldest first, each with the
  address of the struct it was built from (the address is not part of the Go value; it
  is kept to tell the records of one service name apart). \<open>stop_closed\<close> says whether
  the caller has closed the channel \<^verbatim>\<open>done\<close> given to Run. A panic that no goroutine
  recovers ends the program: \<open>crashed\<close>.
\<close>

record state =
  watchTags :: "string list"
  watched :: "(string \<times> rid) list"
  lock :: "tid option"
  heap :: "rid \<Rightarrow> consulService"
  nalloc :: nat
  update :: "rid list"
  upstream :: "(rid \<times> ServiceUpdate) list"
  upstream_closed :: bool
  stop_closed :: bool
  run :: run_pc
  run_panicking :: bool
  cat :: "cat_pc option"
  cat_lastIndex :: uint64
  cat_services :: "(string \<times> string list) list"
  watchers :: "(rid \<times> watch_pc) list"
  effects :: "(tid \<times> effect) list"
  crashed :: bool

text \<open>The state in which Run is called on a registry, before its first statement.\<close>

definition init :: "'c consulRegistry \<Rightarrow> state" where
  "init cr =
     \<lparr>watchTags = tagsToWatch cr, watched = watchedServices cr, lock = None,
      heap = (\<lambda>r. zeroService), nalloc = 0, update = [], upstream = [],
      upstream_closed = False, stop_closed = False, run = RunStart,
      run_panicking = False, cat = None, cat_lastIndex = 0, cat_services = [],
      watchers = [], effects = [], crashed = False\<rparr>"

subsection \<open>Steps\<close>

text \<open>
  The answer of a blocking query: an error (with its text), or the data together with
  \<^verbatim>\<open>meta.LastIndex\<close>. The catalog's answer to \<^verbatim>\<open>Services\<close> is a Go map from names to
  tag lists; it is given as the list of its entries in the order in which the range of
  line 153 will visit them (Go leaves that order open), so its names are distinct.
\<close>

datatype 'a reply = Failed string | Reply 'a uint64

text \<open>
  What decides a step besides the state: nothing (\<open>Next\<close>); which ready case a select
  takes (line 78); the order in which a range over the cache visits its keys (lines 115
  and 190); the answer of the catalog.
\<close>

datatype input =
    Next
  | SelectDone
  | SelectUpdate
  | RangeOrder "string list"
  | Services "(string \<times> string list) list reply"
  | Nodes "CatalogService list reply"

text \<open>A step: the caller closes \<^verbatim>\<open>done\<close>, or one of the goroutines moves.\<close>

datatype action =
    CloseDone
  | InRun input
  | InWatchServices input
  | InWatchService nat input

text \<open>The updates of lines 87-91, 99-103 and 242-247.\<close>

definition deletedUpdate :: "consulService \<Rightarrow> ServiceUpdate" where
  "deletedUpdate srv =
     \<lparr>ServiceName = Name srv, UpdateType = DELETED, ServiceInstances = Map.empty,
      Tag = tag srv\<rparr>"

definition newUpdate :: "consulService \<Rightarrow> ServiceUpdate" where
  "newUpdate srv =
     \<lparr>ServiceName = Name srv, UpdateType = NEW, ServiceInstances = Map.empty,
      Tag = tag srv\<rparr>"

definition changedUpdate :: "consulService \<Rightarrow> ServiceUpdate" where
  "changedUpdate service =
     \<lparr>ServiceName = Name service, UpdateType = CHANGED,
      ServiceInstances = Instances service, Tag = tag service\<rparr>"

text \<open>A panic in Run (closing a closed channel, sending on a closed channel): the
  deferred calls run, \<^verbatim>\<open>cr.stop()\<close> first, and then the program ends.\<close>

definition run_panic :: "state \<Rightarrow> state" where
  "run_panic s = s\<lparr>run := StopLock, run_panicking := True\<rparr>"

text \<open>The order of a range over the cache: every key once.\<close>

definition range_order :: "state \<Rightarrow> string list \<Rightarrow> bool" where
  "range_order s names \<longleftrightarrow> distinct names \<and> set names = set (map fst (watched s))"

text \<open>Run and stop, lines 68-118.\<close>

definition run_step :: "input \<Rightarrow> state \<Rightarrow> state option" where
  "run_step i s =
     (case run s of
        RunStart \<Rightarrow>
          (if i = Next then Some (s\<lparr>cat := Some CatQuery, run := RunSelect\<rparr>) else None)
      | RunSelect \<Rightarrow>
          (if i = SelectDone \<and> stop_closed s then Some (s\<lparr>run := StopLock\<rparr>)
           else if i = SelectUpdate then
             (case update s of
                [] \<Rightarrow> None
              | srv # rest \<Rightarrow> Some (s\<lparr>update := rest, run := RunRemoved srv\<rparr>))
           else None)
      | RunRemoved srv \<Rightarrow>
          (if i = Next then
             Some (s\<lparr>run := (if removed (heap s srv) then RunCloseDone srv
                               else RunRunning srv)\<rparr>)
           else None)
      | RunCloseDone srv \<Rightarrow>
          (if i = Next then
             (if done_closed (heap s srv) then Some (run_panic s)
              else Some (s\<lparr>heap := (heap s)(srv := (heap s srv)\<lparr>done_closed := True\<rparr>),
                           run := RunSendDeleted srv\<rparr>))
           else None)
      | RunSendDeleted srv \<Rightarrow>
          (if i = Next then
             (if upstream_closed s then Some (run_panic s)
              else Some (s\<lparr>upstream := upstream s @ [(srv, deletedUpdate (heap s srv))],
                           run := RunSelect\<rparr>))
           else None)
      | RunRunning srv \<Rightarrow>
          (if i = Next then
             Some (s\<lparr>run := (if \<not> running (heap s srv) then RunGo srv else RunSelect)\<rparr>)
           else None)
      | RunGo srv \<Rightarrow>
          (if i = Next then
             Some (s\<lparr>watchers := watchers s @ [(srv, WQuery)], run := RunSetRunning srv\<rparr>)
           else None)
      | RunSetRunning srv \<Rightarrow>
          (if i = Next then
             Some (s\<lparr>heap := (heap s)(srv := (heap s srv)\<lparr>running := True\<rparr>),
                      run := RunSendNew srv\<rparr>)
           else None)
      | RunSendNew srv \<Rightarrow>
          (if i = Next then
             (if upstream_closed s then Some (run_panic s)
              else Some (s\<lparr>upstream := upstream s @ [(srv, newUpdate (heap s srv))],
                           run := RunSelect\<rparr>))
           else None)
      | StopLock \<Rightarrow>
          (if i = Next \<and> lock s = None then Some (s\<lparr>lock := Some TRun, run := StopRange\<rparr>)
           else None)
      | StopRange \<Rightarrow>
          (case i of
             RangeOrder names \<Rightarrow>
               (if range_order s names
                then Some (s\<lparr>run := StopClose (List.map_filter (map_of (watched s)) names)\<rparr>)
                else None)
           | _ \<Rightarrow> None)
      | StopClose todo \<Rightarrow>
          (if i = Next then
             (case todo of
                [] \<Rightarrow> Some (s\<lparr>run := StopUnlock\<rparr>)
              | srv # rest \<Rightarrow>
                  (if done_closed (heap s srv)
                   then Some (s\<lparr>run := StopUnlock, run_panicking := True\<rparr>)
                   else Some (s\<lparr>heap := (heap s)(srv := (heap s srv)\<lparr>done_closed := True\<rparr>),
                                run := StopClose rest\<rparr>)))
           else None)
      | StopUnlock \<Rightarrow>
          (if i = Next then Some (s\<lparr>lock := None, run := RunCloseUpstream\<rparr>) else None)
      | RunCloseUpstream \<Rightarrow>
          (if i = Next then
             (if upstream_closed s then Some (s\<lparr>crashed := True\<rparr>)
              else if run_panicking s
              then Some (s\<lparr>upstream_closed := True, crashed := True\<rparr>)
              else Some (s\<lparr>upstream_closed := True, run := RunExit\<rparr>))
           else None)
      | RunExit \<Rightarrow> None)"

text \<open>The options of the query of lines 127-131.\<close>

definition watchServices_query :: "state \<Rightarrow> QueryOptions" where
  "watchServices_query s = \<lparr>WaitIndex = cat_lastIndex s, WaitTime = consulWatchTimeout\<rparr>"

text \<open>Lines 178-181: the new struct with its name, its open channel and its tag.\<close>

definition newService :: "string \<Rightarrow> string \<Rightarrow> consulService" where
  "newService k properTag = zeroService\<lparr>Name := k, done_closed := False, tag := properTag\<rparr>"

text \<open>watchServices, lines 122-200.\<close>

definition cat_step :: "input \<Rightarrow> state \<Rightarrow> state option" where
  "cat_step i s =
     (case cat s of
        None \<Rightarrow> None
      | Some CatQuery \<Rightarrow>
          (case i of
             Services (Failed err) \<Rightarrow>
               Some (s\<lparr>effects := effects s @
                          [(TWatchServices, Log (''Error refreshing service list: '' @ err)),
                           (TWatchServices, Sleep consulRetryInterval)]\<rparr>)
           | Services (Reply services idx) \<Rightarrow>
               (if \<not> distinct (map fst services) then None
                else if idx = cat_lastIndex s then Some s
                else Some (s\<lparr>cat_lastIndex := idx, cat_services := services,
                             cat := Some CatLock\<rparr>))
           | _ \<Rightarrow> None)
      | Some CatLock \<Rightarrow>
          (if i = Next \<and> lock s = None
           then Some (s\<lparr>lock := Some TWatchServices, cat := Some CatDone\<rparr>)
           else None)
      | Some CatDone \<Rightarrow>
          (if i = Next then
             (if stop_closed s then Some (s\<lparr>lock := None, cat := Some CatExit\<rparr>)
              else Some (s\<lparr>cat := Some (CatAdd (cat_services s))\<rparr>))
           else None)
      | Some (CatAdd []) \<Rightarrow>
          (case i of
             RangeOrder names \<Rightarrow>
               (if range_order s names then Some (s\<lparr>cat := Some (CatDel names)\<rparr>) else None)
           | _ \<Rightarrow> None)
      | Some (CatAdd ((k, v) # rest)) \<Rightarrow>
          (if i = Next then
             (case matchTags v (watchTags s) of
                (ignore, properTag) \<Rightarrow>
                  (if ignore then Some (s\<lparr>cat := Some (CatAdd rest)\<rparr>)
                   else (case map_of (watched s) k of
                           Some service \<Rightarrow> Some (s\<lparr>cat := Some (CatAdd rest)\<rparr>)
                         | None \<Rightarrow>
                             Some (s\<lparr>heap := (heap s)(nalloc s := newService k properTag),
                                      nalloc := Suc (nalloc s),
                                      watched := watched s @ [(k, nalloc s)],
                                      cat := Some (CatSendNew (nalloc s) rest)\<rparr>))))
           else None)
      | Some (CatSendNew service rest) \<Rightarrow>
          (if i = Next \<and> length (update s) < 16
           then Some (s\<lparr>update := update s @ [service], cat := Some (CatAdd rest)\<rparr>)
           else None)
      | Some (CatDel []) \<Rightarrow>
          (if i = Next then Some (s\<lparr>lock := None, cat := Some CatQuery\<rparr>) else None)
      | Some (CatDel (name # rest)) \<Rightarrow>
          (if i = Next then
             (case map_of (watched s) name of
                None \<Rightarrow> Some (s\<lparr>cat := Some (CatDel rest)\<rparr>)
              | Some srv \<Rightarrow>
                  (if map_of (cat_services s) name = None
                   then Some (s\<lparr>heap := (heap s)(srv := (heap s srv)\<lparr>removed := True\<rparr>),
                                cat := Some (CatSendRemoved name srv rest)\<rparr>)
                   else Some (s\<lparr>cat := Some (CatDel rest)\<rparr>)))
           else None)
      | Some (CatSendRemoved name srv rest) \<Rightarrow>
          (if i = Next \<and> length (update s) < 16
           then Some (s\<lparr>update := update s @ [srv], cat := Some (CatDelete name rest)\<rparr>)
           else None)
      | Some (CatDelete name rest) \<Rightarrow>
          (if i = Next
           then Some (s\<lparr>watched := AList.delete name (watched s), cat := Some (CatDel rest)\<rparr>)
           else None)
      | Some CatExit \<Rightarrow> None)"

text \<open>The options of the query of lines 207-210, for the record a watcher works on.\<close>

definition watchService_query :: "state \<Rightarrow> rid \<Rightarrow> QueryOptions" where
  "watchService_query s service =
     \<lparr>WaitIndex = lastIndex (heap s service), WaitTime = consulWatchTimeout\<rparr>"

text \<open>watchService, lines 204-250, for the goroutine number \<open>n\<close>. A send on the closed
  upstream channel panics; the goroutine has no deferred call, so the program ends.\<close>

definition watch_step :: "nat \<Rightarrow> input \<Rightarrow> state \<Rightarrow> state option" where
  "watch_step n i s =
     (if n < length (watchers s) then
        (case watchers s ! n of
           (service, WQuery) \<Rightarrow>
             (case i of
                Nodes (Failed err) \<Rightarrow>
                  Some (s\<lparr>effects := effects s @
                             [(TWatchService n,
                               Log (''Error refreshing service '' @ Name (heap s service)
                                    @ '': '' @ err)),
                              (TWatchService n, Sleep consulRetryInterval)]\<rparr>)
              | Nodes (Reply nodes idx) \<Rightarrow>
                  (if idx = lastIndex (heap s service) then Some s
                   else Some (s\<lparr>heap := (heap s)(service := (heap s service)
                                          \<lparr>lastIndex := idx, Instances := buildInstances nodes\<rparr>),
                                watchers := (watchers s)[n := (service, WLock)]\<rparr>))
              | _ \<Rightarrow> None)
         | (service, WLock) \<Rightarrow>
             (if i = Next \<and> lock s = None
              then Some (s\<lparr>lock := Some (TWatchService n),
                           watchers := (watchers s)[n := (service, WDone)]\<rparr>)
              else None)
         | (service, WDone) \<Rightarrow>
             (if i = Next then
                (if done_closed (heap s service)
                 then Some (s\<lparr>lock := None, watchers := (watchers s)[n := (service, WExit)]\<rparr>)
                 else Some (s\<lparr>watchers := (watchers s)[n := (service, WSend)]\<rparr>))
              else None)
         | (service, WSend) \<Rightarrow>
             (if i = Next then
                (if upstream_closed s then Some (s\<lparr>crashed := True\<rparr>)
                 else Some (s\<lparr>upstream := upstream s @
                                  [(service, changedUpdate (heap s service))],
                              watchers := (watchers s)[n := (service, WUnlock)]\<rparr>))
              else None)
         | (service, WUnlock) \<Rightarrow>
             (if i = Next
              then Some (s\<lparr>lock := None, watchers := (watchers s)[n := (service, WQuery)]\<rparr>)
              else None)
         | (service, WExit) \<Rightarrow> None)
      else None)"

text \<open>One step of the program. After a crash there is none.\<close>

definition step :: "action \<Rightarrow> state \<Rightarrow> state option" where
  "step a s =
     (if crashed s then None
      else (case a of
              CloseDone \<Rightarrow> (if stop_closed s then None else Some (s\<lparr>stop_closed := True\<rparr>))
            | InRun i \<Rightarrow> run_step i s
            | InWatchServices i \<Rightarrow> cat_step i s
            | InWatchService n i \<Rightarrow> watch_step n i s))"

text \<open>A schedule is a list of actions; it is an execution when every step is possible.\<close>

fun exec :: "action list \<Rightarrow> state \<Rightarrow> state option" where
  "exec [] s = Some s"
| "exec (a # as) s = (case step a s of None \<Rightarrow> None | Some s' \<Rightarrow> exec as s')"

text \<open>The states the program can reach when Run is called on a registry whose cache is
  empty, as NewRegistry returns it.\<close>

inductive reachable :: "'c consulRegistry \<Rightarrow> state \<Rightarrow> bool" for cr :: "'c consulRegistry" where
  reachable_init: "watchedServices cr = [] \<Longrightarrow> reachable cr (init cr)"
| reachable_step: "reachable cr s \<Longrightarrow> step a s = Some s' \<Longrightarrow> reachable cr s'"

section \<open>Properties of the sequential parts\<close>

subsection \<open>Helper lemmas\<close>









subsection \<open>C2: the tag of a new record\<close>



subsection \<open>C9: construction of the registry\<close>

text \<open>
  C9: NewRegistry fails with ErrNoAddress if and only if the address list is empty (and
  then it returns no registry, so nothing can be run); with a non-empty list the result
  depends on the first address only: it is the result for the list cut down to its first
  element, namely the error of the client construction for that address, or a registry
  with that client, an empty cache and the configured tags.
\<close>

theorem NewRegistry_address:
  "(NewRegistry NewClient config = Inl ErrNoAddress \<longleftrightarrow> Addresses config = [])
   \<and> (\<forall>a rest. Addresses config = a # rest \<longrightarrow>
        NewRegistry NewClient config = NewRegistry NewClient (config\<lparr>Addresses := [a]\<rparr>)
        \<and> NewRegistry NewClient config =
            (case NewClient a of
               Inl err \<Rightarrow> Inl (ClientError err)
             | Inr cl \<Rightarrow> Inr \<lparr>client = cl, watchedServices = [],
                              tagsToWatch = TagsToWatch config\<rparr>))"
  by (cases "Addresses config") (auto simp: NewRegistry_def split: sum.splits)

theorem NewRegistry_address_witness:
  "NewRegistry (\<lambda>a. if a = ''bad'' then Inl (1::nat) else Inr a)
      \<lparr>Addresses = [''10.0.0.1:8500'', ''bad''], TagsToWatch = [''prod'']\<rparr>
     = Inr \<lparr>client = ''10.0.0.1:8500'', watchedServices = [],
            tagsToWatch = [''prod'']\<rparr>
   \<and> NewRegistry (\<lambda>a. if a = ''bad'' then Inl (1::nat) else Inr a)
      \<lparr>Addresses = [''10.0.0.1:8500'', ''bad''], TagsToWatch = [''prod'']\<rparr>
     \<noteq> Inl ErrNoAddress"
  using NewRegistry_address
    [of "\<lambda>a. if a = ''bad'' then Inl (1::nat) else Inr a"
        "\<lparr>Addresses = [''10.0.0.1:8500'', ''bad''], TagsToWatch = [''prod'']\<rparr>"]
  by (simp add: NewRegistry_def)

subsection \<open>C10: the instance map\<close>


end
